theory Spec2Isabelle
  imports Main
begin

section \<open>Values exchanged with the HTTP layer\<close>

text \<open>
  Response bodies are JSON values. Object ids are numbers in this development
  (MongoDB's ObjectId is an opaque key; only equality of ids is ever used).
\<close>

datatype json =
    JNull
  | JBool bool
  | JNum nat
  | JStr string
  | JObj "(string \<times> json) list"

text \<open>
  What an Express handler or middleware does with a request:
  \<^item> \<open>Respond c b\<close> is \<^verbatim>\<open>res.status(c).json(b)\<close>;
  \<^item> \<open>NextError m c\<close> is \<^verbatim>\<open>next(new ErrorResponse(m, c))\<close>;
  \<^item> \<open>Next\<close> is \<^verbatim>\<open>next()\<close>: the middleware lets the request through;
  \<^item> \<open>Rejected\<close> is a rejected promise (a failed database call, a TypeError), which
    \<^verbatim>\<open>asyncHandler\<close> hands to \<^verbatim>\<open>next\<close>.
\<close>

datatype outcome =
    Respond nat json
  | NextError string nat
  | Next
  | Rejected

text \<open>
  Modelled from the spec: \<^verbatim>\<open>middleware/errorHandler.js\<close> (the \<^verbatim>\<open>ErrorResponse\<close> class and
  the final error middleware) is not among the sources. An \<^verbatim>\<open>ErrorResponse\<close> is answered
  with the status code it carries. A request that is let through has no status yet, and
  the status of any other error is the error middleware's choice, which is not modelled.
\<close>

fun statusCode :: "outcome \<Rightarrow> nat option" where
  "statusCode (Respond c b) = Some c"
| "statusCode (NextError m c) = Some c"
| "statusCode Next = None"
| "statusCode Rejected = None"

section \<open>Stored records\<close>

text \<open>
  Modelled from the spec: \<^verbatim>\<open>models/User.js\<close> is not among the sources. The fields are
  the ones the controllers read and write; \<open>password\<close> holds the stored hash; a new
  user is active unless the caller says otherwise.
\<close>

record user =
  uid :: nat
  name :: string
  email :: string
  password :: string
  role :: string
  avatar :: "string option"
  isActive :: bool
  lastLogin :: "nat option"
  resetPasswordToken :: "string option"
  resetPasswordExpire :: "nat option"
  createdAt :: nat

text \<open>\<^verbatim>\<open>models/RefreshToken.js\<close>, \<^verbatim>\<open>RefreshTokenSchema\<close>. Dates are milliseconds.\<close>

record refresh_token =
  token :: string
  userId :: nat
  expiresAt :: nat
  createdByIp :: "string option"
  revokedAt :: "nat option"
  revokedByIp :: "string option"
  replacedByToken :: "string option"
  isActive :: bool

text \<open>
  The database: two collections, in insertion order. Within one request a document that
  was read is identified by its position in its collection, and saving it writes that
  position back.
\<close>

record db =
  users :: "user list"
  refreshTokens :: "refresh_token list"

section \<open>The environment of one request\<close>

text \<open>
  Everything a handler reads from outside the database: the clock, the client address
  (\<^verbatim>\<open>getIpAddress(req)\<close>, possibly undefined), the output of \<^verbatim>\<open>crypto.randomBytes\<close>,
  the id MongoDB gives a new document, whether the k-th database write of the request is
  accepted (by the schema's validators and by the storage engine), and the external
  primitives: token signing and verification, password hashing and comparison, SHA-256.
\<close>

record env =
  now :: nat
  ip :: "string option"
  randomBytes40 :: string
  randomBytes32 :: string
  newObjectId :: nat
  writeOk :: "nat \<Rightarrow> bool"
  sign :: "user \<Rightarrow> string"
  verify :: "string \<Rightarrow> nat option"
  hashPassword :: "string \<Rightarrow> string"
  comparePassword :: "string \<Rightarrow> string \<Rightarrow> bool"
  sha256 :: "string \<Rightarrow> string"

text \<open>
  A request: the string-valued fields of the JSON body, its boolean-valued fields, the
  route parameters (object ids), the Authorization header, and \<^verbatim>\<open>req.user\<close> as the
  middleware before the handler left it.
\<close>

record request =
  body :: "string \<rightharpoonup> string"
  bodyBool :: "string \<rightharpoonup> bool"
  params :: "string \<rightharpoonup> nat"
  authorization :: "string option"
  reqUser :: "user option"

text \<open>JavaScript truthiness of a body field that is a string or absent.\<close>

fun truthy :: "string option \<Rightarrow> bool" where
  "truthy None = False"
| "truthy (Some v) = (v \<noteq> [])"

section \<open>Collection primitives\<close>

fun findOne :: "('a \<Rightarrow> bool) \<Rightarrow> 'a list \<Rightarrow> 'a option" where
  "findOne P [] = None"
| "findOne P (x # xs) = (if P x then Some x else findOne P xs)"

text \<open>The first matching document together with its position.\<close>

fun findOneAt :: "('a \<Rightarrow> bool) \<Rightarrow> 'a list \<Rightarrow> (nat \<times> 'a) option" where
  "findOneAt P [] = None"
| "findOneAt P (x # xs) =
     (if P x then Some (0, x)
      else (case findOneAt P xs of None \<Rightarrow> None | Some (i, y) \<Rightarrow> Some (Suc i, y)))"

definition findById :: "nat \<Rightarrow> user list \<Rightarrow> user option" where
  "findById i us = findOne (\<lambda>u. uid u = i) us"

text \<open>\<^verbatim>\<open>doc.save()\<close> of an existing refresh token: write k of the request.\<close>

definition saveToken :: "env \<Rightarrow> nat \<Rightarrow> nat \<Rightarrow> refresh_token \<Rightarrow> db \<Rightarrow> db option" where
  "saveToken e k i r s =
     (if writeOk e k then Some (s\<lparr>refreshTokens := (refreshTokens s)[i := r]\<rparr>) else None)"

text \<open>
  \<^verbatim>\<open>doc.save()\<close> of a new refresh token. The schema declares \<^verbatim>\<open>token\<close> unique, so a
  token string that is already stored is refused.
\<close>

definition insertToken :: "env \<Rightarrow> nat \<Rightarrow> refresh_token \<Rightarrow> db \<Rightarrow> db option" where
  "insertToken e k r s =
     (if writeOk e k \<and> findOne (\<lambda>x. token x = token r) (refreshTokens s) = None
      then Some (s\<lparr>refreshTokens := refreshTokens s @ [r]\<rparr>) else None)"

definition findByIdAt :: "nat option \<Rightarrow> user list \<Rightarrow> (nat \<times> user) option" where
  "findByIdAt i us = (case i of None \<Rightarrow> None | Some j \<Rightarrow> findOneAt (\<lambda>u. uid u = j) us)"

text \<open>\<^verbatim>\<open>user.save()\<close> of the stored user at position i: write k of the request.\<close>

definition saveUser :: "env \<Rightarrow> nat \<Rightarrow> nat \<Rightarrow> user \<Rightarrow> db \<Rightarrow> db option" where
  "saveUser e k i u s =
     (if writeOk e k then Some (s\<lparr>users := (users s)[i := u]\<rparr>) else None)"

text \<open>
  The document \<^verbatim>\<open>User.create\<close> builds from the fields the controllers pass: the
  password is stored hashed, and a new user is active.
\<close>

definition newUser :: "env \<Rightarrow> string \<Rightarrow> string \<Rightarrow> string \<Rightarrow> string \<Rightarrow> user" where
  "newUser e n em pw rl =
     \<lparr>uid = newObjectId e, name = n, email = em, password = hashPassword e pw, role = rl,
      avatar = None, isActive = True, lastLogin = None,
      resetPasswordToken = None, resetPasswordExpire = None, createdAt = now e\<rparr>"

text \<open>
  Modelled from the spec: \<^verbatim>\<open>User.create\<close> belongs to \<^verbatim>\<open>models/User.js\<close>, which is not
  among the sources. It is write k of the request; name and password are required and
  the email is unique, so a missing name or password and a stored email (or id) are
  refused.
\<close>

definition userCreate ::
  "env \<Rightarrow> nat \<Rightarrow> string option \<Rightarrow> string \<Rightarrow> string option \<Rightarrow> string \<Rightarrow> db \<Rightarrow> (user \<times> db) option"
where
  "userCreate e k n em pw rl s =
     (case (n, pw) of
        (Some n', Some pw') \<Rightarrow>
          (let u = newUser e n' em pw' rl
           in if writeOk e k \<and> findOne (\<lambda>v. email v = em \<or> uid v = uid u) (users s) = None
              then Some (u, s\<lparr>users := users s @ [u]\<rparr>) else None)
      | _ \<Rightarrow> None)"

text \<open>\<^verbatim>\<open>String.prototype.toLowerCase\<close> on ASCII.\<close>

definition lowerChar :: "char \<Rightarrow> char" where
  "lowerChar c =
     (let n = (of_char c :: nat) in if 65 \<le> n \<and> n \<le> 90 then char_of (n + 32) else c)"

definition toLowerCase :: "string \<Rightarrow> string" where
  "toLowerCase s = map lowerChar s"

section \<open>Refresh tokens (\<^verbatim>\<open>models/RefreshToken.js\<close>)\<close>

definition isExpired :: "nat \<Rightarrow> refresh_token \<Rightarrow> bool" where
  "isExpired t r = (t \<ge> expiresAt r)"

definition isValid :: "nat \<Rightarrow> refresh_token \<Rightarrow> bool" where
  "isValid t r = (refresh_token.isActive r \<and> \<not> isExpired t r \<and> revokedAt r = None)"

text \<open>The fields \<open>revoke\<close> sets, before the document is saved.\<close>

definition revoke :: "env \<Rightarrow> refresh_token \<Rightarrow> refresh_token" where
  "revoke e r = r\<lparr>revokedAt := Some (now e), revokedByIp := ip e, refresh_token.isActive := False\<rparr>"

definition cleanupExpired :: "nat \<Rightarrow> db \<Rightarrow> nat \<times> db" where
  "cleanupExpired t s =
     (let keep = filter (\<lambda>r. \<not> expiresAt r < t) (refreshTokens s)
      in (length (refreshTokens s) - length keep, s\<lparr>refreshTokens := keep\<rparr>))"

text \<open>
  \<^verbatim>\<open>updateMany({userId, isActive: true}, {revokedAt, revokedByIp, isActive: false})\<close>:
  the number of modified documents and the collection afterwards.
\<close>

definition revokeAllForUser :: "env \<Rightarrow> nat \<Rightarrow> refresh_token list \<Rightarrow> nat \<times> refresh_token list" where
  "revokeAllForUser e u ts =
     (length (filter (\<lambda>r. userId r = u \<and> refresh_token.isActive r) ts),
      map (\<lambda>r. if userId r = u \<and> refresh_token.isActive r
                then r\<lparr>revokedAt := Some (now e), revokedByIp := ip e,
                       refresh_token.isActive := False\<rparr>
                else r) ts)"

section \<open>Authentication controller (\<^verbatim>\<open>controllers/authControllerV2.js\<close>)\<close>

text \<open>
  \<^verbatim>\<open>expiresAt.setDate(expiresAt.getDate() + 7)\<close>: seven days, in milliseconds
  (a day being 24 hours).
\<close>

definition sevenDays :: nat where
  "sevenDays = 7 * 24 * 60 * 60 * 1000"

definition generateRefreshToken :: "env \<Rightarrow> nat \<Rightarrow> refresh_token" where
  "generateRefreshToken e u =
     \<lparr>token = randomBytes40 e, userId = u, expiresAt = now e + sevenDays,
      createdByIp = ip e, revokedAt = None, revokedByIp = None, replacedByToken = None,
      isActive = True\<rparr>"

definition userSummary :: "user \<Rightarrow> json" where
  "userSummary u =
     JObj [(''id'', JNum (uid u)), (''name'', JStr (name u)), (''email'', JStr (email u)),
           (''role'', JStr (role u))]"

definition tokenResponse :: "string \<Rightarrow> json \<Rightarrow> string \<Rightarrow> string \<Rightarrow> json" where
  "tokenResponse msg usr access refresh =
     JObj [(''success'', JBool True), (''message'', JStr msg),
           (''data'', JObj [(''user'', usr), (''accessToken'', JStr access),
                            (''refreshToken'', JStr refresh)])]"

definition refreshToken :: "env \<Rightarrow> request \<Rightarrow> db \<Rightarrow> outcome \<times> db" where
  "refreshToken e req s =
     (if \<not> truthy (body req ''refreshToken'')
      then (NextError ''Refresh token is required'' 400, s)
      else
        (case findOneAt (\<lambda>r. Some (token r) = body req ''refreshToken'') (refreshTokens s) of
           None \<Rightarrow> (NextError ''Invalid refresh token'' 401, s)
         | Some (i, old) \<Rightarrow>
             if \<not> isValid (now e) old
             then (NextError ''Refresh token is expired or revoked'' 401, s)
             else
               (case findById (userId old) (users s) of
                  None \<Rightarrow> (NextError ''User not found or inactive'' 401, s)
                | Some u \<Rightarrow>
                    if \<not> user.isActive u
                    then (NextError ''User not found or inactive'' 401, s)
                    else
                      (let newAccessToken = sign e u;
                           newRefreshToken = generateRefreshToken e (uid u);
                           old' = old\<lparr>replacedByToken := Some (token newRefreshToken)\<rparr>
                       in case saveToken e 0 i (revoke e old') s of
                            None \<Rightarrow> (Rejected, s)
                          | Some s1 \<Rightarrow>
                              (case insertToken e 1 newRefreshToken s1 of
                                 None \<Rightarrow> (Rejected, s1)
                               | Some s2 \<Rightarrow>
                                   (Respond 200
                                      (tokenResponse ''Token refreshed successfully''
                                         (userSummary u) newAccessToken
                                         (token newRefreshToken)),
                                    s2))))))"

text \<open>\<^verbatim>\<open>a || d\<close> for a body field that is a string or absent.\<close>

fun orElse :: "string option \<Rightarrow> string \<Rightarrow> string" where
  "orElse None d = d"
| "orElse (Some v) d = (if v = [] then d else v)"

text \<open>\<^verbatim>\<open>xs.includes(v)\<close> for a value that is a string or absent.\<close>

fun jsIncludes :: "string list \<Rightarrow> string option \<Rightarrow> bool" where
  "jsIncludes xs None = False"
| "jsIncludes xs (Some v) = (v \<in> set xs)"

definition validRoles :: "string list" where
  "validRoles = [''admin'', ''operator'', ''viewer'']"

text \<open>
  \<^verbatim>\<open>exports.register\<close>, the handler of \<^verbatim>\<open>POST /api/auth/register\<close> in
  \<^verbatim>\<open>routes/authRoutesV2.js\<close>, which \<^verbatim>\<open>app.js\<close> and \<^verbatim>\<open>server.js\<close> mount.
  \<^verbatim>\<open>email.toLowerCase()\<close> throws when the email is absent.
\<close>

definition register :: "env \<Rightarrow> request \<Rightarrow> db \<Rightarrow> outcome \<times> db" where
  "register e req s =
     (case body req ''email'' of
        None \<Rightarrow> (Rejected, s)
      | Some em \<Rightarrow>
          (case findOne (\<lambda>u. email u = toLowerCase em) (users s) of
             Some existingUser \<Rightarrow> (NextError ''User already exists with this email'' 400, s)
           | None \<Rightarrow>
               if truthy (body req ''role'') \<and> \<not> jsIncludes validRoles (body req ''role'')
               then (NextError ''Invalid role specified'' 400, s)
               else
                 (case userCreate e 0 (body req ''name'') (toLowerCase em) (body req ''password'')
                         (orElse (body req ''role'') ''viewer'') s of
                    None \<Rightarrow> (Rejected, s)
                  | Some (u, s1) \<Rightarrow>
                      (let accessToken = sign e u;
                           rt = generateRefreshToken e (uid u)
                       in case insertToken e 1 rt s1 of
                            None \<Rightarrow> (Rejected, s1)
                          | Some s2 \<Rightarrow>
                              (Respond 201
                                 (tokenResponse ''Registration successful'' (userSummary u)
                                    accessToken (token rt)),
                               s2)))))"

definition avatarField :: "user \<Rightarrow> (string \<times> json) list" where
  "avatarField u = (case avatar u of None \<Rightarrow> [] | Some a \<Rightarrow> [(''avatar'', JStr a)])"

definition userSummaryAvatar :: "user \<Rightarrow> json" where
  "userSummaryAvatar u =
     JObj ([(''id'', JNum (uid u)), (''name'', JStr (name u)), (''email'', JStr (email u)),
            (''role'', JStr (role u))] @ avatarField u)"

definition matchPassword :: "env \<Rightarrow> string \<Rightarrow> user \<Rightarrow> bool" where
  "matchPassword e entered u = comparePassword e entered (password u)"

definition login :: "env \<Rightarrow> request \<Rightarrow> db \<Rightarrow> outcome \<times> db" where
  "login e req s =
     (if \<not> truthy (body req ''email'') \<or> \<not> truthy (body req ''password'')
      then (NextError ''Please provide email and password'' 400, s)
      else
        (case findOneAt (\<lambda>u. email u = toLowerCase (orElse (body req ''email'') [])) (users s) of
           None \<Rightarrow> (NextError ''Invalid credentials'' 401, s)
         | Some (i, u) \<Rightarrow>
             if \<not> user.isActive u
             then (NextError ''Account is deactivated. Please contact administrator'' 403, s)
             else if \<not> matchPassword e (orElse (body req ''password'') []) u
             then (NextError ''Invalid credentials'' 401, s)
             else
               (let u' = u\<lparr>lastLogin := Some (now e)\<rparr>
                in case saveUser e 0 i u' s of
                     None \<Rightarrow> (Rejected, s)
                   | Some s1 \<Rightarrow>
                       (let accessToken = sign e u';
                            rt = generateRefreshToken e (uid u')
                        in case insertToken e 1 rt s1 of
                             None \<Rightarrow> (Rejected, s1)
                           | Some s2 \<Rightarrow>
                               (Respond 200
                                  (tokenResponse ''Login successful'' (userSummaryAvatar u')
                                     accessToken (token rt)),
                                s2)))))"

definition ack :: "string \<Rightarrow> json" where
  "ack msg = JObj [(''success'', JBool True), (''message'', JStr msg)]"

definition logout :: "env \<Rightarrow> request \<Rightarrow> db \<Rightarrow> outcome \<times> db" where
  "logout e req s =
     (if truthy (body req ''refreshToken'')
      then
        (case findOneAt (\<lambda>r. Some (token r) = body req ''refreshToken'') (refreshTokens s) of
           None \<Rightarrow> (Respond 200 (ack ''Logged out successfully''), s)
         | Some (i, r) \<Rightarrow>
             (case saveToken e 0 i (revoke e r) s of
                None \<Rightarrow> (Rejected, s)
              | Some s1 \<Rightarrow> (Respond 200 (ack ''Logged out successfully''), s1)))
      else (Respond 200 (ack ''Logged out successfully''), s))"

text \<open>Decimal digits of a number, for messages that interpolate a count.\<close>

fun showNat :: "nat \<Rightarrow> string" where
  "showNat n =
     (if n < 10 then [char_of (48 + n)] else showNat (n div 10) @ [char_of (48 + n mod 10)])"

text \<open>\<^verbatim>\<open>updateMany\<close> as write k of the request.\<close>

definition revokeAllWrite :: "env \<Rightarrow> nat \<Rightarrow> nat \<Rightarrow> db \<Rightarrow> (nat \<times> db) option" where
  "revokeAllWrite e k u s =
     (if writeOk e k
      then (case revokeAllForUser e u (refreshTokens s) of
              (count, ts) \<Rightarrow> Some (count, s\<lparr>refreshTokens := ts\<rparr>))
      else None)"

definition logoutAll :: "env \<Rightarrow> request \<Rightarrow> db \<Rightarrow> outcome \<times> db" where
  "logoutAll e req s =
     (case reqUser req of
        None \<Rightarrow> (Rejected, s)
      | Some me \<Rightarrow>
          (case revokeAllWrite e 0 (uid me) s of
             None \<Rightarrow> (Rejected, s)
           | Some (count, s1) \<Rightarrow>
               (Respond 200 (ack (''Logged out from '' @ showNat count @ '' device(s)'')), s1)))"

text \<open>
  \<^verbatim>\<open>findByIdAndUpdate(req.user.id, fieldsToUpdate)\<close>: the fields that are defined in the
  body replace the stored ones.
\<close>

definition updateProfile :: "env \<Rightarrow> request \<Rightarrow> db \<Rightarrow> outcome \<times> db" where
  "updateProfile e req s =
     (case reqUser req of
        None \<Rightarrow> (Rejected, s)
      | Some me \<Rightarrow>
          (case findByIdAt (Some (uid me)) (users s) of
             None \<Rightarrow> (Rejected, s)
           | Some (i, u) \<Rightarrow>
               (let u1 = (case body req ''name'' of None \<Rightarrow> u | Some n \<Rightarrow> u\<lparr>name := n\<rparr>);
                    u2 = (case body req ''avatar'' of None \<Rightarrow> u1 | Some a \<Rightarrow> u1\<lparr>avatar := Some a\<rparr>)
                in case saveUser e 0 i u2 s of
                     None \<Rightarrow> (Rejected, s)
                   | Some s1 \<Rightarrow>
                       (Respond 200
                          (JObj [(''success'', JBool True),
                                 (''message'', JStr ''Profile updated successfully''),
                                 (''data'', JObj [(''user'', userSummaryAvatar u2)])]),
                        s1))))"

definition changePassword :: "env \<Rightarrow> request \<Rightarrow> db \<Rightarrow> outcome \<times> db" where
  "changePassword e req s =
     (if \<not> truthy (body req ''currentPassword'') \<or> \<not> truthy (body req ''newPassword'')
      then (NextError ''Please provide current and new password'' 400, s)
      else
        (case reqUser req of
           None \<Rightarrow> (Rejected, s)
         | Some me \<Rightarrow>
             (case findByIdAt (Some (uid me)) (users s) of
                None \<Rightarrow> (Rejected, s)
              | Some (i, u) \<Rightarrow>
                  if \<not> matchPassword e (orElse (body req ''currentPassword'') []) u
                  then (NextError ''Current password is incorrect'' 401, s)
                  else
                    (case saveUser e 0 i
                            (u\<lparr>password := hashPassword e (orElse (body req ''newPassword'') [])\<rparr>) s of
                       None \<Rightarrow> (Rejected, s)
                     | Some s1 \<Rightarrow>
                         (case revokeAllWrite e 1 (uid u) s1 of
                            None \<Rightarrow> (Rejected, s1)
                          | Some (count, s2) \<Rightarrow>
                              (Respond 200
                                 (ack ''Password changed successfully. Please login again.''),
                               s2))))))"

text \<open>Ten minutes in milliseconds.\<close>

definition tenMinutes :: nat where
  "tenMinutes = 10 * 60 * 1000"

definition forgotPassword :: "env \<Rightarrow> request \<Rightarrow> db \<Rightarrow> outcome \<times> db" where
  "forgotPassword e req s =
     (if \<not> truthy (body req ''email'')
      then (NextError ''Please provide email'' 400, s)
      else
        (case findOneAt (\<lambda>u. email u = toLowerCase (orElse (body req ''email'') [])) (users s) of
           None \<Rightarrow>
             (Respond 200
                (ack ''If an account exists with this email, a password reset link has been sent''),
              s)
         | Some (i, u) \<Rightarrow>
             (let resetToken = randomBytes32 e;
                  u' = u\<lparr>resetPasswordToken := Some (sha256 e resetToken),
                         resetPasswordExpire := Some (now e + tenMinutes)\<rparr>
              in case saveUser e 0 i u' s of
                   None \<Rightarrow> (Rejected, s)
                 | Some s1 \<Rightarrow>
                     (Respond 200
                        (JObj [(''success'', JBool True),
                               (''message'', JStr ''Password reset token generated''),
                               (''data'', JObj [(''resetToken'', JStr resetToken)])]),
                      s1))))"

definition resetMatches :: "env \<Rightarrow> string \<Rightarrow> user \<Rightarrow> bool" where
  "resetMatches e hashedToken u =
     (resetPasswordToken u = Some hashedToken \<and>
      (case resetPasswordExpire u of None \<Rightarrow> False | Some t \<Rightarrow> t > now e))"

definition resetPassword :: "env \<Rightarrow> request \<Rightarrow> db \<Rightarrow> outcome \<times> db" where
  "resetPassword e req s =
     (if \<not> truthy (body req ''resetToken'') \<or> \<not> truthy (body req ''newPassword'')
      then (NextError ''Please provide reset token and new password'' 400, s)
      else
        (let hashedToken = sha256 e (orElse (body req ''resetToken'') [])
         in case findOneAt (resetMatches e hashedToken) (users s) of
              None \<Rightarrow> (NextError ''Invalid or expired reset token'' 400, s)
            | Some (i, u) \<Rightarrow>
                (case saveUser e 0 i
                        (u\<lparr>password := hashPassword e (orElse (body req ''newPassword'') []),
                           resetPasswordToken := None, resetPasswordExpire := None\<rparr>) s of
                   None \<Rightarrow> (Rejected, s)
                 | Some s1 \<Rightarrow>
                     (case revokeAllWrite e 1 (uid u) s1 of
                        None \<Rightarrow> (Rejected, s1)
                      | Some (count, s2) \<Rightarrow>
                          (Respond 200
                             (ack ''Password reset successful. Please login with your new password.''),
                           s2)))))"

section \<open>Authentication and authorization middleware (\<^verbatim>\<open>middleware/auth.js\<close>)\<close>

text \<open>\<^verbatim>\<open>s.split(' ')\<close>: the pieces between single spaces, empty pieces included.\<close>

fun splitSpace :: "string \<Rightarrow> string list" where
  "splitSpace [] = [[]]"
| "splitSpace (c # cs) =
     (if c = CHR '' '' then [] # splitSpace cs
      else (case splitSpace cs of [] \<Rightarrow> [[c]] | p # ps \<Rightarrow> (c # p) # ps))"

text \<open>
  The token of the Authorization header: \<^verbatim>\<open>split(' ')[1]\<close> when the header is there and
  starts with \<^verbatim>\<open>Bearer\<close>, undefined otherwise.
\<close>

definition bearerToken :: "request \<Rightarrow> string option" where
  "bearerToken req =
     (case authorization req of
        None \<Rightarrow> None
      | Some h \<Rightarrow>
          if h \<noteq> [] \<and> take 6 h = ''Bearer''
          then (case splitSpace h of p # t # ps \<Rightarrow> Some t | _ \<Rightarrow> None)
          else None)"

text \<open>
  A middleware returns its outcome and the request as it leaves it (\<^verbatim>\<open>req.user\<close> set).
  \<^verbatim>\<open>jwt.verify\<close> throws on a bad signature or an expired token; the \<^verbatim>\<open>catch\<close> answers 401.
\<close>

definition protect :: "env \<Rightarrow> request \<Rightarrow> db \<Rightarrow> outcome \<times> request" where
  "protect e req s =
     (if \<not> truthy (bearerToken req)
      then (NextError ''Not authorized to access this route'' 401, req)
      else
        (case verify e (orElse (bearerToken req) []) of
           None \<Rightarrow> (NextError ''Not authorized to access this route'' 401, req)
         | Some decodedId \<Rightarrow>
             (let req' = req\<lparr>reqUser := findById decodedId (users s)\<rparr>
              in case reqUser req' of
                   None \<Rightarrow> (NextError ''User not found'' 404, req')
                 | Some u \<Rightarrow>
                     if \<not> user.isActive u
                     then (NextError ''User account is deactivated'' 403, req')
                     else (Next, req'))))"

text \<open>A string between single quotes, as the messages interpolate a role.\<close>

definition quoted :: "string \<Rightarrow> string" where
  "quoted r = [CHR 0x27] @ r @ [CHR 0x27]"

definition notAuthorizedRole :: "string \<Rightarrow> string" where
  "notAuthorizedRole r = ''User role '' @ quoted r @ '' is not authorized to access this route''"

definition requireRole :: "string list \<Rightarrow> env \<Rightarrow> request \<Rightarrow> db \<Rightarrow> outcome \<times> request" where
  "requireRole roles e req s =
     (if \<not> truthy (bearerToken req)
      then (NextError ''Not authorized to access this route'' 401, req)
      else
        (case verify e (orElse (bearerToken req) []) of
           None \<Rightarrow> (NextError ''Not authorized to access this route'' 401, req)
         | Some decodedId \<Rightarrow>
             (let req' = req\<lparr>reqUser := findById decodedId (users s)\<rparr>
              in case reqUser req' of
                   None \<Rightarrow> (NextError ''User not found'' 404, req')
                 | Some u \<Rightarrow>
                     if \<not> user.isActive u
                     then (NextError ''User account is deactivated'' 403, req')
                     else if role u \<notin> set roles
                     then (NextError (notAuthorizedRole (role u)) 403, req')
                     else (Next, req'))))"

section \<open>Permissions (\<^verbatim>\<open>middleware/permissions.js\<close>)\<close>

definition PERMISSIONS :: "(string \<times> (string \<times> bool) list) list" where
  "PERMISSIONS =
     [(''admin'',
         [(''viewDashboard'', True), (''viewMap'', True), (''viewAnalytics'', True),
          (''modifySignals'', True), (''overrideSignals'', True), (''manageEmergencies'', True),
          (''manageUsers'', True), (''viewSettings'', True), (''modifySettings'', True)]),
      (''operator'',
         [(''viewDashboard'', True), (''viewMap'', True), (''viewAnalytics'', True),
          (''modifySignals'', True), (''overrideSignals'', False), (''manageEmergencies'', True),
          (''manageUsers'', False), (''viewSettings'', True), (''modifySettings'', False)]),
      (''viewer'',
         [(''viewDashboard'', True), (''viewMap'', True), (''viewAnalytics'', True),
          (''modifySignals'', False), (''overrideSignals'', False), (''manageEmergencies'', False),
          (''manageUsers'', False), (''viewSettings'', False), (''modifySettings'', False)])]"

definition noPermission :: "string \<Rightarrow> string \<Rightarrow> string" where
  "noPermission r p = ''Role '' @ quoted r @ '' does not have permission to '' @ p"

text \<open>
  \<^verbatim>\<open>PERMISSIONS[userRole]\<close> is a lookup in the table (the role names of the user schema
  are not property names of \<^verbatim>\<open>Object.prototype\<close>).
\<close>

definition hasPermission :: "string \<Rightarrow> request \<Rightarrow> outcome" where
  "hasPermission permission req =
     (case reqUser req of
        None \<Rightarrow> NextError ''Not authorized to access this route'' 401
      | Some u \<Rightarrow>
          (case map_of PERMISSIONS (role u) of
             None \<Rightarrow> NextError ''Invalid role'' 403
           | Some userPermissions \<Rightarrow>
               if map_of userPermissions permission \<noteq> Some True
               then NextError (noPermission (role u) permission) 403
               else Next))"

definition getUserPermissions :: "request \<Rightarrow> outcome" where
  "getUserPermissions req =
     (case reqUser req of
        None \<Rightarrow>
          Respond 401 (JObj [(''success'', JBool False), (''message'', JStr ''Not authorized'')])
      | Some u \<Rightarrow>
          (let permissions =
                 (case map_of PERMISSIONS (role u) of
                    None \<Rightarrow> JObj []
                  | Some ps \<Rightarrow> JObj (map (\<lambda>(k, v). (k, JBool v)) ps))
           in Respond 200
                (JObj [(''success'', JBool True),
                       (''data'', JObj [(''role'', JStr (role u)),
                                        (''permissions'', permissions)])])))"

section \<open>User management (\<^verbatim>\<open>controllers/adminController.js\<close>)\<close>

definition adminUserJson :: "user \<Rightarrow> (string \<times> json) list" where
  "adminUserJson u =
     [(''_id'', JNum (uid u)), (''name'', JStr (name u)), (''email'', JStr (email u)),
      (''role'', JStr (role u)), (''isActive'', JBool (user.isActive u))]"

definition userData :: "string \<Rightarrow> (string \<times> json) list \<Rightarrow> json" where
  "userData msg kvs =
     JObj [(''success'', JBool True), (''message'', JStr msg),
           (''data'', JObj [(''user'', JObj kvs)])]"

definition createUser :: "env \<Rightarrow> request \<Rightarrow> db \<Rightarrow> outcome \<times> db" where
  "createUser e req s =
     (if \<not> truthy (body req ''name'') \<or> \<not> truthy (body req ''email'') \<or>
         \<not> truthy (body req ''password'') \<or> \<not> truthy (body req ''role'')
      then (NextError ''Please provide name, email, password, and role'' 400, s)
      else if length (orElse (body req ''password'') []) < 8
      then (NextError ''Password must be at least 8 characters'' 400, s)
      else if \<not> jsIncludes [''admin'', ''operator'', ''viewer''] (body req ''role'')
      then (NextError ''Role must be admin, operator, or viewer'' 400, s)
      else
        (case findOne (\<lambda>u. email u = toLowerCase (orElse (body req ''email'') [])) (users s) of
           Some existingUser \<Rightarrow> (NextError ''User with this email already exists'' 409, s)
         | None \<Rightarrow>
             (case userCreate e 0 (body req ''name'') (toLowerCase (orElse (body req ''email'') []))
                     (body req ''password'') (orElse (body req ''role'') []) s of
                None \<Rightarrow> (Rejected, s)
              | Some (u, s1) \<Rightarrow>
                  (Respond 201
                     (userData ''User created successfully''
                        (adminUserJson u @ [(''createdAt'', JNum (createdAt u))])),
                   s1))))"

text \<open>\<^verbatim>\<open>User.countDocuments({ role: 'owner', isActive: true })\<close>.\<close>

definition ownerCount :: "db \<Rightarrow> nat" where
  "ownerCount s = length (filter (\<lambda>u. role u = ''owner'' \<and> user.isActive u) (users s))"

definition changeUserRole :: "env \<Rightarrow> request \<Rightarrow> db \<Rightarrow> outcome \<times> db" where
  "changeUserRole e req s =
     (if \<not> truthy (body req ''role'')
      then (NextError ''Please provide a role'' 400, s)
      else if \<not> jsIncludes [''admin'', ''operator'', ''viewer''] (body req ''role'')
      then (NextError ''Role must be admin, operator, or viewer'' 400, s)
      else
        (case findByIdAt (params req ''userId'') (users s) of
           None \<Rightarrow> (NextError ''User not found'' 404, s)
         | Some (i, u) \<Rightarrow>
             if role u = ''owner''
             then (NextError ''Cannot change the role of an owner'' 400, s)
             else if body req ''role'' \<noteq> Some ''owner'' \<and> ownerCount s \<le> 1 \<and> role u = ''owner''
             then (NextError ''Cannot demote the last owner'' 403, s)
             else
               (let u' = u\<lparr>role := orElse (body req ''role'') []\<rparr>
                in case saveUser e 0 i u' s of
                     None \<Rightarrow> (Rejected, s)
                   | Some s1 \<Rightarrow>
                       (Respond 200 (userData ''Role updated successfully'' (adminUserJson u')),
                        s1))))"

text \<open>
  \<^verbatim>\<open>User.findByIdAndDelete\<close>, write k of the request: the first document with that id
  is removed from the collection.
\<close>

definition findByIdAndDelete :: "env \<Rightarrow> nat \<Rightarrow> nat option \<Rightarrow> db \<Rightarrow> db option" where
  "findByIdAndDelete e k i s =
     (if writeOk e k
      then (case findByIdAt i (users s) of
              None \<Rightarrow> Some s
            | Some (j, u) \<Rightarrow> Some (s\<lparr>users := take j (users s) @ drop (Suc j) (users s)\<rparr>))
      else None)"

definition deleteUser :: "env \<Rightarrow> request \<Rightarrow> db \<Rightarrow> outcome \<times> db" where
  "deleteUser e req s =
     (case findByIdAt (params req ''id'') (users s) of
        None \<Rightarrow> (NextError ''User not found'' 404, s)
      | Some (i, u) \<Rightarrow>
          if role u = ''owner''
          then (NextError ''Cannot delete an owner account'' 403, s)
          else
            (case reqUser req of
               None \<Rightarrow> (Rejected, s)
             | Some me \<Rightarrow>
                 if uid u = uid me
                 then (NextError ''Cannot delete your own account'' 403, s)
                 else
                   (case findByIdAndDelete e 0 (params req ''id'') s of
                      None \<Rightarrow> (Rejected, s)
                    | Some s1 \<Rightarrow>
                        (Respond 200
                           (JObj [(''success'', JBool True),
                                  (''message'', JStr ''User deleted successfully''),
                                  (''data'', JObj [(''deletedUserId'', JNum (uid u))])]),
                         s1))))"

definition activateUser :: "env \<Rightarrow> request \<Rightarrow> db \<Rightarrow> outcome \<times> db" where
  "activateUser e req s =
     (case findByIdAt (params req ''id'') (users s) of
        None \<Rightarrow> (NextError ''User not found'' 404, s)
      | Some (i, u) \<Rightarrow>
          (let u' = u\<lparr>user.isActive := (case bodyBool req ''isActive'' of None \<Rightarrow> True | Some b \<Rightarrow> b)\<rparr>
           in case saveUser e 0 i u' s of
                None \<Rightarrow> (Rejected, s)
              | Some s1 \<Rightarrow>
                  (Respond 200
                     (userData
                        (if user.isActive u' then ''User activated successfully''
                         else ''User deactivated successfully'')
                        (adminUserJson u')),
                   s1)))"

section \<open>Owner bootstrap (\<^verbatim>\<open>utils/bootstrapOwner.js\<close>)\<close>

text \<open>
  The two arguments are \<^verbatim>\<open>process.env.OWNER_EMAIL\<close> and
  \<^verbatim>\<open>process.env.OWNER_DEFAULT_PASSWORD\<close>. The result is \<open>None\<close> when the function throws,
  and otherwise the owner it returns (none when no email is configured) with the
  database afterwards.
\<close>

definition bootstrapOwner ::
  "env \<Rightarrow> string option \<Rightarrow> string option \<Rightarrow> db \<Rightarrow> (user option \<times> db) option"
where
  "bootstrapOwner e ownerEmail ownerDefaultPassword s =
     (if \<not> truthy ownerEmail then Some (None, s)
      else
        (case findOneAt (\<lambda>u. Some (email u) = ownerEmail) (users s) of
           Some (i, owner) \<Rightarrow>
             if role owner \<noteq> ''owner''
             then
               (let owner' = owner\<lparr>role := ''owner'', user.isActive := True\<rparr>
                in case saveUser e 0 i owner' s of
                     None \<Rightarrow> None
                   | Some s1 \<Rightarrow> Some (Some owner', s1))
             else Some (Some owner, s)
         | None \<Rightarrow>
             (let defaultPassword = orElse ownerDefaultPassword ''Owner@123456''
              in case userCreate e 0 (Some ''System Owner'') (orElse ownerEmail [])
                        (Some defaultPassword) ''owner'' s of
                   None \<Rightarrow> None
                 | Some (owner, s1) \<Rightarrow> Some (Some owner, s1))))"

section \<open>Routes (\<^verbatim>\<open>routes/authRoutesV2.js\<close>, \<^verbatim>\<open>routes/adminRoutes.js\<close>)\<close>

text \<open>
  The routes that write to the database. The read-only routes (\<^verbatim>\<open>GET /me\<close>,
  \<^verbatim>\<open>GET /permissions\<close>, \<^verbatim>\<open>GET /users\<close>, \<^verbatim>\<open>GET /users/:id\<close>) leave it as it is.
\<close>

datatype route =
    PostRegister
  | PostLogin
  | PostRefresh
  | PostForgotPassword
  | PostResetPassword
  | PutProfile
  | PutPassword
  | PostLogout
  | PostLogoutAll
  | AdminPostUsers
  | AdminPatchRole
  | AdminPatchActivate
  | AdminDeleteUser

text \<open>A middleware in front of a handler: the handler runs when the middleware calls \<^verbatim>\<open>next()\<close>.\<close>

definition guarded ::
  "(env \<Rightarrow> request \<Rightarrow> db \<Rightarrow> outcome \<times> request) \<Rightarrow> (env \<Rightarrow> request \<Rightarrow> db \<Rightarrow> outcome \<times> db) \<Rightarrow>
   env \<Rightarrow> request \<Rightarrow> db \<Rightarrow> outcome \<times> db"
where
  "guarded mw h e req s =
     (case mw e req s of
        (Next, req') \<Rightarrow> h e req' s
      | (out, req') \<Rightarrow> (out, s))"

fun serve :: "route \<Rightarrow> env \<Rightarrow> request \<Rightarrow> db \<Rightarrow> outcome \<times> db" where
  "serve PostRegister = register"
| "serve PostLogin = login"
| "serve PostRefresh = refreshToken"
| "serve PostForgotPassword = forgotPassword"
| "serve PostResetPassword = resetPassword"
| "serve PutProfile = guarded protect updateProfile"
| "serve PutPassword = guarded protect changePassword"
| "serve PostLogout = guarded protect logout"
| "serve PostLogoutAll = guarded protect logoutAll"
| "serve AdminPostUsers = guarded (requireRole [''owner'']) createUser"
| "serve AdminPatchRole = guarded (requireRole [''owner'']) changeUserRole"
| "serve AdminPatchActivate = guarded (requireRole [''owner'']) activateUser"
| "serve AdminDeleteUser = guarded (requireRole [''owner'']) deleteUser"




text \<open>A request that presents a refresh token, and the refresh token a response carries.\<close>

definition presenting :: "string \<Rightarrow> request" where
  "presenting t =
     \<lparr>body = [''refreshToken'' \<mapsto> t], bodyBool = Map.empty, params = Map.empty,
      authorization = None, reqUser = None\<rparr>"



text \<open>The users whose role is owner, as stored.\<close>

definition owners :: "db \<Rightarrow> user list" where
  "owners s = filter (\<lambda>u. role u = ''owner'') (users s)"

section \<open>Sample data\<close>

text \<open>A small database and environment, used to run the model on concrete requests.\<close>

definition sampleUser :: "nat \<Rightarrow> string \<Rightarrow> string \<Rightarrow> bool \<Rightarrow> user" where
  "sampleUser i em rl act =
     \<lparr>uid = i, name = ''user'', email = em, password = ''secret123'', role = rl,
      avatar = None, isActive = act, lastLogin = None,
      resetPasswordToken = None, resetPasswordExpire = None, createdAt = 0\<rparr>"

definition sampleToken :: "string \<Rightarrow> nat \<Rightarrow> bool \<Rightarrow> refresh_token" where
  "sampleToken t u act =
     \<lparr>token = t, userId = u, expiresAt = 5000, createdByIp = None,
      revokedAt = (if act then None else Some 7), revokedByIp = None,
      replacedByToken = None, isActive = act\<rparr>"

definition sampleEnv :: "string \<Rightarrow> env" where
  "sampleEnv rnd =
     \<lparr>now = 1000, ip = Some ''10.0.0.1'', randomBytes40 = rnd, randomBytes32 = ''reset'',
      newObjectId = 9, writeOk = (\<lambda>k. True), sign = (\<lambda>u. ''jwt''),
      verify = (\<lambda>t. if t = ''a1'' then Some 1 else if t = ''a2'' then Some 2 else None),
      hashPassword = (\<lambda>p. p), comparePassword = (\<lambda>p h. p = h), sha256 = (\<lambda>x. x)\<rparr>"

definition sampleDb :: db where
  "sampleDb =
     \<lparr>users = [sampleUser 1 ''owner@x.com'' ''owner'' True,
               sampleUser 2 ''bob@x.com'' ''viewer'' True],
      refreshTokens = [sampleToken ''t0'' 2 True, sampleToken ''t5'' 1 True,
                       sampleToken ''t6'' 2 False]\<rparr>"

definition sampleRequest ::
  "(string \<rightharpoonup> string) \<Rightarrow> (string \<rightharpoonup> nat) \<Rightarrow> string option \<Rightarrow> user option \<Rightarrow> request"
where
  "sampleRequest b p h u =
     \<lparr>body = b, bodyBool = Map.empty, params = p, authorization = h, reqUser = u\<rparr>"

text \<open>An environment whose second database write is refused.\<close>

definition failingEnv :: env where
  "failingEnv = (sampleEnv ''t1'')\<lparr>writeOk := (\<lambda>k. k = 0)\<rparr>"


section \<open>Notions used to state the rotation property\<close>



section \<open>Finding documents\<close>

lemma findOneAt_Some_iff:
  "findOneAt P xs = Some (i, r) \<longleftrightarrow>
     i < length xs \<and> xs ! i = r \<and> P r \<and> (\<forall>j<i. \<not> P (xs ! j))"
proof (induction xs arbitrary: i)
  case Nil
  then show ?case by simp
next
  case (Cons x xs)
  show ?case
  proof (cases "P x")
    case True
    then show ?thesis by (cases i) auto
  next
    case False
    show ?thesis
    proof (cases i)
      case 0
      with False show ?thesis by (auto split: option.splits)
    next
      case (Suc k)
      have "(\<forall>j<Suc k. \<not> P ((x # xs) ! j)) \<longleftrightarrow> (\<forall>j<k. \<not> P (xs ! j))"
        using False by (auto simp: less_Suc_eq_0_disj)
      with False Suc Cons.IH [of k] show ?thesis
        by (auto split: option.splits)
    qed
  qed
qed

lemma findOneAt_None_iff: "findOneAt P xs = None \<longleftrightarrow> (\<forall>x\<in>set xs. \<not> P x)"
  by (induction xs) (auto split: option.splits)

lemma findOne_None_iff: "findOne P xs = None \<longleftrightarrow> (\<forall>x\<in>set xs. \<not> P x)"
  by (induction xs) auto

lemma findOne_findOneAt: "findOne P xs = map_option snd (findOneAt P xs)"
  by (induction xs) (auto split: option.splits)

section \<open>The token collection only moves forward\<close>
































section \<open>Refreshing\<close>

lemma presenting_body [simp]: "body (presenting t) ''refreshToken'' = Some t"
  by (simp add: presenting_def)







section \<open>Lemmas on users and on the role guard\<close>

text \<open>The sample definitions, for evaluation.\<close>

lemmas sample_defs = sampleUser_def sampleToken_def sampleEnv_def sampleDb_def sampleRequest_def

lemma findById_findByIdAt: "findById i us = map_option snd (findByIdAt (Some i) us)"
  by (simp add: findById_def findByIdAt_def findOne_findOneAt)

lemma filter_update_other:
  "i < length xs \<Longrightarrow> \<not> P (xs ! i) \<Longrightarrow> \<not> P y \<Longrightarrow> filter P (xs[i := y]) = filter P xs"
proof (induction xs arbitrary: i)
  case Nil
  then show ?case by simp
next
  case (Cons x xs)
  then show ?case by (cases i) auto
qed

lemma createUser_owner_400:
  "body req ''role'' = Some ''owner'' \<Longrightarrow> \<exists>m. createUser e req s = (NextError m 400, s)"
  by (simp add: createUser_def)

lemma changeUserRole_owner_400:
  "body req ''role'' = Some ''owner'' \<Longrightarrow> \<exists>m. changeUserRole e req s = (NextError m 400, s)"
  by (simp add: changeUserRole_def)

lemma changeUserRole_target_owner_400:
  assumes "params req ''userId'' = Some i" and "findById i (users s) = Some u"
    and "role u = ''owner''"
  shows "\<exists>m. changeUserRole e req s = (NextError m 400, s)"
proof -
  from assms(1,2) obtain j where "findByIdAt (params req ''userId'') (users s) = Some (j, u)"
    by (auto simp: findById_findByIdAt)
  with assms(3) show ?thesis
    by (simp add: changeUserRole_def)
qed

lemma createUser_owners: "owners (snd (createUser e req s)) = owners s"
proof -
  have "owners s1 = owners s"
    if "jsIncludes [''admin'', ''operator'', ''viewer''] (body req ''role'')"
      and "userCreate e 0 n em pw (orElse (body req ''role'') []) s = Some (u, s1)"
    for n em pw u s1
    using that
    by (cases "body req ''role''")
       (auto simp: userCreate_def newUser_def owners_def Let_def split: option.splits if_splits)
  then show ?thesis
    by (auto simp: createUser_def split: option.splits prod.splits)
qed

lemma changeUserRole_owners: "owners (snd (changeUserRole e req s)) = owners s"
proof -
  have "owners s1 = owners s"
    if r: "jsIncludes [''admin'', ''operator'', ''viewer''] (body req ''role'')"
      and f: "findByIdAt (params req ''userId'') (users s) = Some (i, u)"
      and no: "role u \<noteq> ''owner''"
      and sv: "saveUser e 0 i (u\<lparr>role := orElse (body req ''role'') []\<rparr>) s = Some s1"
    for i u s1
  proof -
    from f have i: "i < length (users s)" and ui: "users s ! i = u"
      by (auto simp: findByIdAt_def findOneAt_Some_iff split: option.splits)
    from r have "orElse (body req ''role'') [] \<noteq> ''owner''"
      by (cases "body req ''role''") auto
    with sv i ui no show ?thesis
      by (auto simp: saveUser_def owners_def filter_update_other split: if_splits)
  qed
  then show ?thesis
    by (auto simp: changeUserRole_def Let_def split: option.splits prod.splits)
qed

lemma requireRole_cases:
  "fst (requireRole roles e req s) =
     (if \<not> truthy (bearerToken req) then NextError ''Not authorized to access this route'' 401
      else case verify e (orElse (bearerToken req) []) of
        None \<Rightarrow> NextError ''Not authorized to access this route'' 401
      | Some i \<Rightarrow> (case findById i (users s) of
           None \<Rightarrow> NextError ''User not found'' 404
         | Some u \<Rightarrow> if \<not> user.isActive u then NextError ''User account is deactivated'' 403
                     else if role u \<notin> set roles then NextError (notAuthorizedRole (role u)) 403
                     else Next))"
  by (simp add: requireRole_def Let_def split: option.splits)

section \<open>Self-registration\<close>

text \<open>
  C1. The claim: on the mounted route every self-registration stores the role viewer,
  whatever role the body carries. The mounted handler (\<^verbatim>\<open>authControllerV2.register\<close>)
  instead stores \<^verbatim>\<open>role || 'viewer'\<close>: a body with role admin creates an admin (status
  201), and a body with role owner is refused with 400 and creates nobody. The sibling
  handler \<^verbatim>\<open>authController.register\<close> and the RBAC tests force viewer.
\<close>

theorem register_takes_role_from_body:
  "map role (users (snd (register (sampleEnv ''t1'')
      (sampleRequest [''name'' \<mapsto> ''Mallory'', ''email'' \<mapsto> ''M@x.com'',
         ''password'' \<mapsto> ''secret123'', ''role'' \<mapsto> ''admin''] Map.empty None None) sampleDb)))
     = [''owner'', ''viewer'', ''admin''] \<and>
   statusCode (fst (register (sampleEnv ''t1'')
      (sampleRequest [''name'' \<mapsto> ''Mallory'', ''email'' \<mapsto> ''M@x.com'',
         ''password'' \<mapsto> ''secret123'', ''role'' \<mapsto> ''admin''] Map.empty None None) sampleDb))
     = Some 201 \<and>
   register (sampleEnv ''t1'')
      (sampleRequest [''name'' \<mapsto> ''Mallory'', ''email'' \<mapsto> ''M@x.com'',
         ''password'' \<mapsto> ''secret123'', ''role'' \<mapsto> ''owner''] Map.empty None None) sampleDb
     = (NextError ''Invalid role specified'' 400, sampleDb)"
  by (simp add: sample_defs register_def toLowerCase_def lowerChar_def validRoles_def
      userCreate_def newUser_def insertToken_def generateRefreshToken_def Let_def)

section \<open>Rotation is single use\<close>




section \<open>Rotation when the successor cannot be stored\<close>

text \<open>
  C3, as amended. The handler revokes the presented record before it saves the
  successor. So when the presented record is valid, its user exists and is active, the
  revoking write is accepted and the successor is refused (the write fails, or the
  generated token string is already stored), the request ends with a rejected promise
  and the database differs from the one before in exactly the presented record, which
  is now revoked: \<open>replacedByToken\<close> names the successor that was not stored,
  \<open>revokedAt\<close> and \<open>revokedByIp\<close> are set and \<open>isActive\<close> is false.
\<close>

theorem refresh_revokes_before_persisting:
  assumes "findOneAt (\<lambda>r. token r = t) (refreshTokens s) = Some (i, old)"
    and "t \<noteq> []"
    and "isValid (now e) old"
    and "findById (userId old) (users s) = Some u"
    and "user.isActive u"
    and "writeOk e 0"
    and "\<not> writeOk e 1 \<or> findOne (\<lambda>x. token x = randomBytes40 e) (refreshTokens s) \<noteq> None"
  shows "refreshToken e (presenting t) s =
           (Rejected, s\<lparr>refreshTokens := (refreshTokens s)[i := revoke e (old\<lparr>replacedByToken := Some (randomBytes40 e)\<rparr>)]\<rparr>)"
proof -
  let ?new = "generateRefreshToken e (uid u)"
  let ?old = "revoke e (old\<lparr>replacedByToken := Some (token ?new)\<rparr>)"
  let ?sa = "s\<lparr>refreshTokens := (refreshTokens s)[i := ?old]\<rparr>"
  have old: "?old = revoke e (old\<lparr>replacedByToken := Some (randomBytes40 e)\<rparr>)"
    by (simp add: generateRefreshToken_def)
  from assms(1) have i: "i < length (refreshTokens s)" and ri: "refreshTokens s ! i = old"
    and tk: "token old = t"
    by (simp_all add: findOneAt_Some_iff)
  have sv: "saveToken e 0 i ?old s = Some ?sa"
    using assms(6) by (simp add: saveToken_def)
  have "insertToken e 1 ?new ?sa = None"
  proof (cases "writeOk e 1")
    case False
    then show ?thesis by (simp add: insertToken_def)
  next
    case True
    with assms(7) obtain x where x: "x \<in> set (refreshTokens s)" "token x = randomBytes40 e"
      by (auto simp: findOne_None_iff)
    then obtain j where j: "j < length (refreshTokens s)" "refreshTokens s ! j = x"
      by (auto simp: in_set_conv_nth)
    have "token ((refreshTokens s)[i := ?old] ! j) = randomBytes40 e"
      using j x i ri by (cases "j = i") (auto simp: revoke_def)
    moreover have "(refreshTokens s)[i := ?old] ! j \<in> set ((refreshTokens s)[i := ?old])"
      using j by (simp add: nth_mem)
    ultimately have "findOne (\<lambda>x. token x = randomBytes40 e) ((refreshTokens s)[i := ?old]) \<noteq> None"
      unfolding findOne_None_iff by blast
    then show ?thesis
      by (simp add: insertToken_def generateRefreshToken_def)
  qed
  with sv assms(1-5) show ?thesis
    by (simp add: refreshToken_def Let_def old [symmetric])
qed

text \<open>On the sample database, with the second write refused.\<close>

theorem refresh_revokes_before_persisting_witness:
  "refreshToken failingEnv (presenting ''t0'') sampleDb =
     (Rejected,
      sampleDb\<lparr>refreshTokens :=
        [(sampleToken ''t0'' 2 True)\<lparr>replacedByToken := Some ''t1'', revokedAt := Some 1000,
            revokedByIp := Some ''10.0.0.1'', refresh_token.isActive := False\<rparr>,
         sampleToken ''t5'' 1 True, sampleToken ''t6'' 2 False]\<rparr>)"
proof -
  have "refreshToken failingEnv (presenting ''t0'') sampleDb =
          (Rejected, sampleDb\<lparr>refreshTokens :=
             (refreshTokens sampleDb)
               [0 := revoke failingEnv
                       ((sampleToken ''t0'' 2 True)\<lparr>replacedByToken := Some (randomBytes40 failingEnv)\<rparr>)]\<rparr>)"
    by (rule refresh_revokes_before_persisting [where u = "sampleUser 2 ''bob@x.com'' ''viewer'' True"])
       (simp_all add: sample_defs failingEnv_def isValid_def isExpired_def findById_def)
  then show ?thesis
    by (simp add: sample_defs failingEnv_def revoke_def)
qed

text \<open>
  The claim as stated (the presented record is left unchanged when the successor cannot
  be persisted) fails: the generated token \<open>t5\<close> is already stored, the successor is
  refused, nothing is added, and the presented record \<open>t0\<close>, valid before, is inactive
  afterwards.
\<close>

theorem refresh_partial_state_counterexample:
  "token (refreshTokens sampleDb ! 0) = ''t0'' \<and>
   isValid (now (sampleEnv ''t5'')) (refreshTokens sampleDb ! 0) \<and>
   insertToken (sampleEnv ''t5'') 1 (generateRefreshToken (sampleEnv ''t5'') 2)
     (sampleDb\<lparr>refreshTokens := (refreshTokens sampleDb)
        [0 := revoke (sampleEnv ''t5'')
                ((refreshTokens sampleDb ! 0)\<lparr>replacedByToken := Some ''t5''\<rparr>)]\<rparr>) = None \<and>
   fst (refreshToken (sampleEnv ''t5'') (presenting ''t0'') sampleDb) = Rejected \<and>
   length (refreshTokens (snd (refreshToken (sampleEnv ''t5'') (presenting ''t0'') sampleDb))) = 3 \<and>
   refreshTokens (snd (refreshToken (sampleEnv ''t5'') (presenting ''t0'') sampleDb)) ! 0 \<noteq>
     refreshTokens sampleDb ! 0 \<and>
   \<not> refresh_token.isActive
       (refreshTokens (snd (refreshToken (sampleEnv ''t5'') (presenting ''t0'') sampleDb)) ! 0)"
  by (simp add: sample_defs refreshToken_def presenting_def isValid_def isExpired_def findById_def
      saveToken_def insertToken_def revoke_def generateRefreshToken_def Let_def)

section \<open>Forgotten password\<close>

text \<open>
  C4. The claim: the response to \<open>forgotPassword\<close> is the same generic acknowledgement
  whether or not the email belongs to an account. The handler answers an unknown email
  with the generic message, as its comment says (\<^verbatim>\<open>Don't reveal if user exists\<close>), but a
  known email with another message and the reset token itself.
\<close>

theorem forgotPassword_reveals_account:
  "fst (forgotPassword (sampleEnv ''t1'')
          (sampleRequest [''email'' \<mapsto> ''bob@x.com''] Map.empty None None) sampleDb)
     = Respond 200
         (JObj [(''success'', JBool True), (''message'', JStr ''Password reset token generated''),
                (''data'', JObj [(''resetToken'', JStr ''reset'')])]) \<and>
   fst (forgotPassword (sampleEnv ''t1'')
          (sampleRequest [''email'' \<mapsto> ''nobody@x.com''] Map.empty None None) sampleDb)
     = Respond 200
         (JObj [(''success'', JBool True),
                (''message'',
                 JStr ''If an account exists with this email, a password reset link has been sent'')]) \<and>
   fst (forgotPassword (sampleEnv ''t1'')
          (sampleRequest [''email'' \<mapsto> ''bob@x.com''] Map.empty None None) sampleDb)
     \<noteq> fst (forgotPassword (sampleEnv ''t1'')
          (sampleRequest [''email'' \<mapsto> ''nobody@x.com''] Map.empty None None) sampleDb)"
  by (simp add: sample_defs forgotPassword_def toLowerCase_def lowerChar_def saveUser_def
      Let_def ack_def)

section \<open>No owner through the administrative API\<close>

text \<open>
  C5. \<open>createUser\<close> answers a request for role owner with a validation error (400)
  whoever the caller is; \<open>changeUserRole\<close> answers 400 when the requested role is
  owner and when the target is an owner; and the stored owners are the same before and
  after either operation, whatever the request.
\<close>

theorem admin_never_creates_or_changes_owner:
  "(body req ''role'' = Some ''owner'' \<longrightarrow> (\<exists>m. createUser e req s = (NextError m 400, s))) \<and>
   (body req ''role'' = Some ''owner'' \<longrightarrow> (\<exists>m. changeUserRole e req s = (NextError m 400, s))) \<and>
   (\<forall>i u. params req ''userId'' = Some i \<and> findById i (users s) = Some u \<and> role u = ''owner'' \<longrightarrow>
      (\<exists>m. changeUserRole e req s = (NextError m 400, s))) \<and>
   owners (snd (createUser e req s)) = owners s \<and>
   owners (snd (changeUserRole e req s)) = owners s"
  using createUser_owner_400 [of req e s] changeUserRole_owner_400 [of req e s]
    changeUserRole_target_owner_400 [of req _ s _ e]
    createUser_owners [of e req s] changeUserRole_owners [of e req s]
  by blast

text \<open>
  On the sample database: the three refusals, and a creation and a role change that
  succeed and leave the one owner as stored.
\<close>

theorem admin_never_creates_or_changes_owner_witness:
  "(\<exists>m. createUser (sampleEnv ''t1'')
          (sampleRequest [''name'' \<mapsto> ''Eve'', ''email'' \<mapsto> ''eve@x.com'',
             ''password'' \<mapsto> ''secret123'', ''role'' \<mapsto> ''owner''] Map.empty None None) sampleDb
        = (NextError m 400, sampleDb)) \<and>
   (\<exists>m. changeUserRole (sampleEnv ''t1'')
          (sampleRequest [''role'' \<mapsto> ''owner''] [''userId'' \<mapsto> 2] None None) sampleDb
        = (NextError m 400, sampleDb)) \<and>
   (\<exists>m. changeUserRole (sampleEnv ''t1'')
          (sampleRequest [''role'' \<mapsto> ''viewer''] [''userId'' \<mapsto> 1] None None) sampleDb
        = (NextError m 400, sampleDb)) \<and>
   statusCode (fst (createUser (sampleEnv ''t1'')
          (sampleRequest [''name'' \<mapsto> ''Eve'', ''email'' \<mapsto> ''eve@x.com'',
             ''password'' \<mapsto> ''secret123'', ''role'' \<mapsto> ''admin''] Map.empty None None) sampleDb))
     = Some 201 \<and>
   owners (snd (createUser (sampleEnv ''t1'')
          (sampleRequest [''name'' \<mapsto> ''Eve'', ''email'' \<mapsto> ''eve@x.com'',
             ''password'' \<mapsto> ''secret123'', ''role'' \<mapsto> ''admin''] Map.empty None None) sampleDb))
     = [sampleUser 1 ''owner@x.com'' ''owner'' True] \<and>
   statusCode (fst (changeUserRole (sampleEnv ''t1'')
          (sampleRequest [''role'' \<mapsto> ''admin''] [''userId'' \<mapsto> 2] None None) sampleDb))
     = Some 200 \<and>
   owners (snd (changeUserRole (sampleEnv ''t1'')
          (sampleRequest [''role'' \<mapsto> ''admin''] [''userId'' \<mapsto> 2] None None) sampleDb))
     = [sampleUser 1 ''owner@x.com'' ''owner'' True]"
proof -
  let ?e = "sampleEnv ''t1''"
  let ?mk = "\<lambda>r. sampleRequest [''name'' \<mapsto> ''Eve'', ''email'' \<mapsto> ''eve@x.com'',
             ''password'' \<mapsto> ''secret123'', ''role'' \<mapsto> r] Map.empty None None"
  let ?ch = "\<lambda>r i. sampleRequest [''role'' \<mapsto> r] [''userId'' \<mapsto> i] None None"
  have o: "owners sampleDb = [sampleUser 1 ''owner@x.com'' ''owner'' True]"
    by (simp add: owners_def sample_defs)
  have 1: "\<exists>m. createUser ?e (?mk ''owner'') sampleDb = (NextError m 400, sampleDb)"
    using admin_never_creates_or_changes_owner [of "?mk ''owner''" ?e sampleDb]
    by (simp add: sampleRequest_def)
  have 2: "\<exists>m. changeUserRole ?e (?ch ''owner'' 2) sampleDb = (NextError m 400, sampleDb)"
    using admin_never_creates_or_changes_owner [of "?ch ''owner'' 2" ?e sampleDb]
    by (simp add: sampleRequest_def)
  have "params (?ch ''viewer'' 1) ''userId'' = Some 1 \<and>
        findById 1 (users sampleDb) = Some (sampleUser 1 ''owner@x.com'' ''owner'' True) \<and>
        role (sampleUser 1 ''owner@x.com'' ''owner'' True) = ''owner''"
    by (simp add: sample_defs findById_def)
  then have 3: "\<exists>m. changeUserRole ?e (?ch ''viewer'' 1) sampleDb = (NextError m 400, sampleDb)"
    using admin_never_creates_or_changes_owner [of "?ch ''viewer'' 1" ?e sampleDb]
    by blast
  have 4: "statusCode (fst (createUser ?e (?mk ''admin'') sampleDb)) = Some 201"
    by (simp add: createUser_def sample_defs toLowerCase_def lowerChar_def userCreate_def
        newUser_def Let_def)
  have 5: "owners (snd (createUser ?e (?mk ''admin'') sampleDb)) = owners sampleDb"
    using admin_never_creates_or_changes_owner [of "?mk ''admin''" ?e sampleDb] by blast
  have 6: "statusCode (fst (changeUserRole ?e (?ch ''admin'' 2) sampleDb)) = Some 200"
    by (simp add: changeUserRole_def sample_defs findByIdAt_def saveUser_def Let_def ownerCount_def)
  have 7: "owners (snd (changeUserRole ?e (?ch ''admin'' 2) sampleDb)) = owners sampleDb"
    using admin_never_creates_or_changes_owner [of "?ch ''admin'' 2" ?e sampleDb] by blast
  from 1 2 3 4 5 6 7 show ?thesis unfolding o by blast
qed

section \<open>Deleting a user\<close>

text \<open>
  C6. The claim: \<open>deleteUser\<close> on a target that is neither an owner nor the requester
  sets the target's active flag to false and keeps the record. The handler calls
  \<^verbatim>\<open>User.findByIdAndDelete\<close>: the owner of the sample database deletes user 2, and
  afterwards no user 2 is stored. (The RBAC test reads the user back and expects
  \<^verbatim>\<open>isActive\<close> to be false.)
\<close>

theorem deleteUser_removes_record:
  "serve AdminDeleteUser (sampleEnv ''t1'')
      (sampleRequest Map.empty [''id'' \<mapsto> 2] (Some ''Bearer a1'') None) sampleDb
     = (Respond 200
          (JObj [(''success'', JBool True), (''message'', JStr ''User deleted successfully''),
                 (''data'', JObj [(''deletedUserId'', JNum 2)])]),
        sampleDb\<lparr>users := [sampleUser 1 ''owner@x.com'' ''owner'' True]\<rparr>) \<and>
   findById 2 (users (snd (serve AdminDeleteUser (sampleEnv ''t1'')
      (sampleRequest Map.empty [''id'' \<mapsto> 2] (Some ''Bearer a1'') None) sampleDb))) = None"
  by (simp add: sample_defs guarded_def requireRole_def bearerToken_def findById_def
      deleteUser_def findByIdAt_def findByIdAndDelete_def Let_def)

section \<open>Bootstrap of an existing owner\<close>

text \<open>
  C7. The claim: after bootstrap the user with the configured email is an owner and
  active, even if the account was deactivated before. The function sets both fields
  only when the role is not owner yet: an owner who was deactivated stays inactive.
\<close>

theorem bootstrapOwner_leaves_owner_inactive:
  "bootstrapOwner (sampleEnv ''t1'') (Some ''owner@x.com'') None
      (sampleDb\<lparr>users := [sampleUser 1 ''owner@x.com'' ''owner'' False]\<rparr>)
     = Some (Some (sampleUser 1 ''owner@x.com'' ''owner'' False),
             sampleDb\<lparr>users := [sampleUser 1 ''owner@x.com'' ''owner'' False]\<rparr>) \<and>
   \<not> user.isActive (sampleUser 1 ''owner@x.com'' ''owner'' False)"
  by (simp add: sample_defs bootstrapOwner_def)

section \<open>401 before 403\<close>

text \<open>
  C8. In \<open>requireRole\<close>: a request without an Authorization header, with a header
  that does not start with \<^verbatim>\<open>Bearer\<close>, with no token after it, or with a token that
  \<^verbatim>\<open>jwt.verify\<close> refuses (bad signature, expired) is answered 401; and whenever the
  answer is 403, the token verified and the user it names was found, and that user is
  inactive or has a role that is not allowed.
\<close>

theorem requireRole_401_before_403:
  "(authorization req = None \<longrightarrow> statusCode (fst (requireRole roles e req s)) = Some 401) \<and>
   (\<forall>h. authorization req = Some h \<and> take 6 h \<noteq> ''Bearer'' \<longrightarrow>
        statusCode (fst (requireRole roles e req s)) = Some 401) \<and>
   (bearerToken req = None \<or> bearerToken req = Some [] \<longrightarrow>
        statusCode (fst (requireRole roles e req s)) = Some 401) \<and>
   (\<forall>t. bearerToken req = Some t \<and> verify e t = None \<longrightarrow>
        statusCode (fst (requireRole roles e req s)) = Some 401) \<and>
   (statusCode (fst (requireRole roles e req s)) = Some 403 \<longrightarrow>
      (\<exists>t i u. bearerToken req = Some t \<and> t \<noteq> [] \<and> verify e t = Some i \<and>
               findById i (users s) = Some u \<and>
               (\<not> user.isActive u \<or> role u \<notin> set roles)))"
proof -
  have a: "authorization req = None \<Longrightarrow> bearerToken req = None"
    by (simp add: bearerToken_def)
  have b: "authorization req = Some h \<Longrightarrow> take 6 h \<noteq> ''Bearer'' \<Longrightarrow> bearerToken req = None" for h
    by (simp add: bearerToken_def)
  have c: "bearerToken req = None \<or> bearerToken req = Some [] \<Longrightarrow>
           statusCode (fst (requireRole roles e req s)) = Some 401"
    by (auto simp: requireRole_cases)
  have d: "bearerToken req = Some t \<Longrightarrow> verify e t = None \<Longrightarrow>
           statusCode (fst (requireRole roles e req s)) = Some 401" for t
    by (cases "t = []") (simp_all add: requireRole_cases)
  have f: "statusCode (fst (requireRole roles e req s)) = Some 403 \<Longrightarrow>
      (\<exists>t i u. bearerToken req = Some t \<and> t \<noteq> [] \<and> verify e t = Some i \<and>
               findById i (users s) = Some u \<and>
               (\<not> user.isActive u \<or> role u \<notin> set roles))"
  proof (cases "bearerToken req")
    case None
    assume "statusCode (fst (requireRole roles e req s)) = Some 403"
    with None show ?thesis by (simp add: requireRole_cases)
  next
    case (Some t)
    assume "statusCode (fst (requireRole roles e req s)) = Some 403"
    with Some show ?thesis
      by (auto simp: requireRole_cases split: if_splits option.splits)
  qed
  from a b c d f show ?thesis by blast
qed

text \<open>
  On the sample database, for an owner-only route: four requests that are answered 401,
  and the viewer's request, answered 403 with a verified token and a stored user.
\<close>

theorem requireRole_401_before_403_witness:
  "statusCode (fst (requireRole [''owner''] (sampleEnv ''t1'')
      (sampleRequest Map.empty Map.empty None None) sampleDb)) = Some 401 \<and>
   statusCode (fst (requireRole [''owner''] (sampleEnv ''t1'')
      (sampleRequest Map.empty Map.empty (Some ''Basic a1'') None) sampleDb)) = Some 401 \<and>
   statusCode (fst (requireRole [''owner''] (sampleEnv ''t1'')
      (sampleRequest Map.empty Map.empty (Some ''Bearer'') None) sampleDb)) = Some 401 \<and>
   statusCode (fst (requireRole [''owner''] (sampleEnv ''t1'')
      (sampleRequest Map.empty Map.empty (Some ''Bearer forged'') None) sampleDb)) = Some 401 \<and>
   statusCode (fst (requireRole [''owner''] (sampleEnv ''t1'')
      (sampleRequest Map.empty Map.empty (Some ''Bearer a2'') None) sampleDb)) = Some 403 \<and>
   (\<exists>t i u. bearerToken (sampleRequest Map.empty Map.empty (Some ''Bearer a2'') None) = Some t \<and>
        t \<noteq> [] \<and> verify (sampleEnv ''t1'') t = Some i \<and>
        findById i (users sampleDb) = Some u \<and>
        (\<not> user.isActive u \<or> role u \<notin> set [''owner'']))"
proof -
  let ?e = "sampleEnv ''t1''"
  let ?r = "\<lambda>h. sampleRequest Map.empty Map.empty h None"
  have bt: "bearerToken (?r (Some ''Bearer'')) = None"
    "bearerToken (?r (Some ''Bearer forged'')) = Some ''forged''"
    by (simp_all add: bearerToken_def sampleRequest_def)
  have 1: "statusCode (fst (requireRole [''owner''] ?e (?r None) sampleDb)) = Some 401"
    using requireRole_401_before_403 [of "?r None" "[''owner'']" ?e sampleDb]
    by (simp add: sampleRequest_def)
  have 2: "statusCode (fst (requireRole [''owner''] ?e (?r (Some ''Basic a1'')) sampleDb)) = Some 401"
    using requireRole_401_before_403 [of "?r (Some ''Basic a1'')" "[''owner'']" ?e sampleDb]
    by (simp add: sampleRequest_def)
  have 3: "statusCode (fst (requireRole [''owner''] ?e (?r (Some ''Bearer'')) sampleDb)) = Some 401"
    using requireRole_401_before_403 [of "?r (Some ''Bearer'')" "[''owner'']" ?e sampleDb] bt
    by simp
  have 4: "statusCode (fst (requireRole [''owner''] ?e (?r (Some ''Bearer forged'')) sampleDb)) = Some 401"
    using requireRole_401_before_403 [of "?r (Some ''Bearer forged'')" "[''owner'']" ?e sampleDb] bt
    by (simp add: sampleEnv_def)
  have 5: "statusCode (fst (requireRole [''owner''] ?e (?r (Some ''Bearer a2'')) sampleDb)) = Some 403"
    by (simp add: requireRole_cases bearerToken_def sample_defs findById_def)
  from 5 have 6: "\<exists>t i u. bearerToken (?r (Some ''Bearer a2'')) = Some t \<and>
        t \<noteq> [] \<and> verify ?e t = Some i \<and> findById i (users sampleDb) = Some u \<and>
        (\<not> user.isActive u \<or> role u \<notin> set [''owner''])"
    using requireRole_401_before_403 [of "?r (Some ''Bearer a2'')" "[''owner'']" ?e sampleDb]
    by blast
  from 1 2 3 4 5 6 show ?thesis by blast
qed

section \<open>The owner has no entry in the permission table\<close>

text \<open>
  C9. \<open>PERMISSIONS\<close> has no entry for the role owner: for a request whose principal
  is an owner, \<open>hasPermission p\<close> answers 403 (Invalid role) for every permission
  \<open>p\<close>, and \<open>getUserPermissions\<close> answers 200 with an empty permissions object.
\<close>

theorem owner_has_no_permission:
  "reqUser req = Some u \<and> role u = ''owner'' \<longrightarrow>
     map_of PERMISSIONS (role u) = None \<and>
     hasPermission p req = NextError ''Invalid role'' 403 \<and>
     getUserPermissions req =
       Respond 200
         (JObj [(''success'', JBool True),
                (''data'', JObj [(''role'', JStr ''owner''), (''permissions'', JObj [])])])"
  by (simp add: hasPermission_def getUserPermissions_def PERMISSIONS_def)

text \<open>For the owner of the sample database.\<close>

theorem owner_has_no_permission_witness:
  "hasPermission ''viewDashboard''
     (sampleRequest Map.empty Map.empty None (Some (sampleUser 1 ''owner@x.com'' ''owner'' True)))
     = NextError ''Invalid role'' 403 \<and>
   getUserPermissions
     (sampleRequest Map.empty Map.empty None (Some (sampleUser 1 ''owner@x.com'' ''owner'' True)))
     = Respond 200
         (JObj [(''success'', JBool True),
                (''data'', JObj [(''role'', JStr ''owner''), (''permissions'', JObj [])])])"
  using owner_has_no_permission
    [of "sampleRequest Map.empty Map.empty None (Some (sampleUser 1 ''owner@x.com'' ''owner'' True))"
        "sampleUser 1 ''owner@x.com'' ''owner'' True" "''viewDashboard''"]
  by (simp add: sampleRequest_def sampleUser_def)

section \<open>What revoking all tokens of a user leaves alone\<close>

text \<open>
  C10. \<open>revokeAllForUser\<close> keeps the number and the order of the records; a record of
  another user, and a record of the same user that is already inactive, stays as it is
  in every field; and a record that changed was an active record of that user.
\<close>

theorem revokeAllForUser_frame:
  "length (snd (revokeAllForUser e u ts)) = length ts \<and>
   (\<forall>i < length ts.
      (userId (ts ! i) \<noteq> u \<or> \<not> refresh_token.isActive (ts ! i)) \<longrightarrow>
        snd (revokeAllForUser e u ts) ! i = ts ! i) \<and>
   (\<forall>i < length ts.
      snd (revokeAllForUser e u ts) ! i \<noteq> ts ! i \<longrightarrow>
        userId (ts ! i) = u \<and> refresh_token.isActive (ts ! i))"
  by (auto simp: revokeAllForUser_def)

text \<open>
  On the sample collection, revoking for user 2: the record of user 1 and the inactive
  record of user 2 (revoked at time 7) stay; the active record of user 2 changes.
\<close>

theorem revokeAllForUser_frame_witness:
  "snd (revokeAllForUser (sampleEnv ''t1'') 2 (refreshTokens sampleDb)) ! 1 = sampleToken ''t5'' 1 True \<and>
   snd (revokeAllForUser (sampleEnv ''t1'') 2 (refreshTokens sampleDb)) ! 2 = sampleToken ''t6'' 2 False \<and>
   revokedAt (snd (revokeAllForUser (sampleEnv ''t1'') 2 (refreshTokens sampleDb)) ! 2) = Some 7 \<and>
   snd (revokeAllForUser (sampleEnv ''t1'') 2 (refreshTokens sampleDb)) ! 0 \<noteq> sampleToken ''t0'' 2 True"
proof -
  let ?ts = "refreshTokens sampleDb"
  have ts: "?ts = [sampleToken ''t0'' 2 True, sampleToken ''t5'' 1 True, sampleToken ''t6'' 2 False]"
    by (simp add: sampleDb_def)
  have a: "snd (revokeAllForUser (sampleEnv ''t1'') 2 ?ts) ! 1 = ?ts ! 1"
    using revokeAllForUser_frame [of "sampleEnv ''t1''" 2 ?ts]
    by (simp add: ts sampleToken_def)
  have b: "snd (revokeAllForUser (sampleEnv ''t1'') 2 ?ts) ! 2 = ?ts ! 2"
    using revokeAllForUser_frame [of "sampleEnv ''t1''" 2 ?ts]
    by (simp add: ts sampleToken_def)
  have c: "snd (revokeAllForUser (sampleEnv ''t1'') 2 ?ts) ! 0 \<noteq> sampleToken ''t0'' 2 True"
    by (simp add: ts revokeAllForUser_def sampleToken_def)
  from a b c show ?thesis by (simp add: ts sampleToken_def)
qed

end
